theory Spec2Isabelle
  imports Main "HOL-Library.Word" "HOL-Library.AList"
begin

section \<open>Values, errors and collaborators\<close>

text \<open>
  The module \<^verbatim>\<open>sparkdl/graph/graph_builder.py\<close> defines two classes,
  \<^verbatim>\<open>IsolatedSession\<close> and \<^verbatim>\<open>GraphFunction\<close>. Everything else it touches
  (TensorFlow, Keras, joblib, the helpers of \<^verbatim>\<open>graph_utils\<close>) is a collaborator
  whose code is not part of the module. Collaborators are taken as parameters: records
  of functions that either return a value or raise.

  An exception raised inside a collaborator is carried as \<open>Raised\<close> with a description;
  the exceptions the module itself raises have constructors of their own, so that the
  origin of every failure is visible in the result.
\<close>

type_synonym bytes = "8 word list"

type_synonym exn = string

datatype assertion =
    No_function
  | Incompatible_link "string option" "string option"
  | Cannot_locate_inputs
  | Missing_fields
  | Not_a_string

datatype error =
    AssertionError assertion
  | NotImplementedError
  | IOError string
  | TypeError
  | Raised exn

text \<open>
  \<^verbatim>\<open>GraphFunction.__init__\<close>: the three attributes, stored as given.
\<close>

record 'gd graph_function =
  graph_def :: 'gd
  input_names :: "string list"
  output_names :: "string list"

section \<open>Persistence: \<^verbatim>\<open>dump\<close> and \<^verbatim>\<open>from_file\<close>\<close>

text \<open>
  The protocol-buffer codec of the graph definition
  (\<^verbatim>\<open>graph_def.SerializeToString()\<close>, \<^verbatim>\<open>tf.GraphDef.FromString\<close>).
\<close>

record 'gd protobuf =
  SerializeToString :: "'gd \<Rightarrow> bytes"
  FromString :: "bytes \<Rightarrow> exn + 'gd"

text \<open>
  What joblib stores is a Python dict from field names to values. The values this
  module writes are a byte string and two lists of names. The file system is a map
  from path strings to stored dicts.
\<close>

datatype jl_value = Bytes bytes | Names "string list"

type_synonym container = "string \<rightharpoonup> jl_value"

type_synonym files = "string \<rightharpoonup> container"

text \<open>
  The \<^verbatim>\<open>fpath\<close> argument of \<^verbatim>\<open>dump\<close> is any Python object; the method
  asserts that it is a string.
\<close>

datatype py_path = Str string | Path_object string

definition endswith :: "string \<Rightarrow> string \<Rightarrow> bool" where
  "endswith s suffix \<longleftrightarrow>
     length suffix \<le> length s \<and> drop (length s - length suffix) s = suffix"

text \<open>
  Lines 153-154: \<^verbatim>\<open>if not fpath.endswith("jl"): fpath += ".jl"\<close>.
\<close>

definition dump_path :: "string \<Rightarrow> string" where
  "dump_path fpath = (if \<not> endswith fpath ''jl'' then fpath @ ''.jl'' else fpath)"

definition dump :: "'gd protobuf \<Rightarrow> 'gd graph_function \<Rightarrow> py_path \<Rightarrow> files \<Rightarrow> error + files" where
  "dump pb self fpath fs =
     (let st = [''graph_def_bytes'' \<mapsto> Bytes (SerializeToString pb (graph_def self)),
                ''inputs'' \<mapsto> Names (input_names self),
                ''outputs'' \<mapsto> Names (output_names self)]
      in case fpath of
           Path_object p \<Rightarrow> Inl (AssertionError Not_a_string)
         | Str p \<Rightarrow> Inr (fs(dump_path p \<mapsto> st)))"

text \<open>
  \<^verbatim>\<open>from_file\<close>: \<^verbatim>\<open>jl.load\<close> raises when there is no file at the path, read
  as given (no suffix is added on this side). The assertion compares key sets.
  \<^verbatim>\<open>FromString\<close> raises a type error on a value that is not a byte string. The
  graph function of the model holds lists of names, so a stored \<^verbatim>\<open>inputs\<close> or
  \<^verbatim>\<open>outputs\<close> of another type is reported at once as a type error, where Python
  would store it unchecked and fail at its first use.
\<close>

definition from_file :: "'gd protobuf \<Rightarrow> string \<Rightarrow> files \<Rightarrow> error + 'gd graph_function" where
  "from_file pb fpath fs =
     (case fs fpath of
        None \<Rightarrow> Inl (IOError fpath)
      | Some st \<Rightarrow>
          if \<not> {''inputs'', ''graph_def_bytes'', ''outputs''} \<subseteq> dom st
          then Inl (AssertionError Missing_fields)
          else (case st ''graph_def_bytes'' of
                  Some (Bytes b) \<Rightarrow>
                    (case FromString pb b of
                       Inl e \<Rightarrow> Inl (Raised e)
                     | Inr gdef \<Rightarrow>
                         (case (st ''inputs'', st ''outputs'') of
                            (Some (Names ins), Some (Names outs)) \<Rightarrow>
                              Inr \<lparr>graph_def = gdef, input_names = ins, output_names = outs\<rparr>
                          | _ \<Rightarrow> Inl TypeError))
                | _ \<Rightarrow> Inl TypeError))"

text \<open>
  A codec for evaluating the persistence functions on concrete inputs: a graph
  definition is a text, encoded character by character.
\<close>

definition text_codec :: "string protobuf" where
  "text_codec =
     \<lparr>SerializeToString = map of_char,
      FromString = (\<lambda>b. Inr (map (\<lambda>w. char_of (unat w)) b))\<rparr>"

section \<open>The execution engine and the ambient state\<close>

text \<open>
  The engine is what the module consumes from TensorFlow and from \<^verbatim>\<open>graph_utils\<close>
  (imported as \<^verbatim>\<open>tfx\<close>). A graph \<open>'g\<close> is a value; an operation that adds nodes
  returns the extended graph. Every call that can raise returns a sum.
  \<^item> \<open>Graph\<close>: \<^verbatim>\<open>tf.Graph()\<close>, a new empty graph;
  \<^item> \<open>import_graph_def gdef input_map return_elements name g\<close>: \<^verbatim>\<open>tf.import_graph_def\<close>;
  \<^item> \<open>get_tensor\<close>, \<open>op_name\<close>, \<open>validated_input\<close>, \<open>validated_output\<close>,
    \<open>strip_and_freeze_until\<close>: the helpers of \<^verbatim>\<open>tfx\<close>;
  \<^item> \<open>placeholder\<close>, \<open>identity\<close>: \<^verbatim>\<open>tf.placeholder\<close>, \<^verbatim>\<open>tf.identity\<close>;
  \<^item> \<open>dtype\<close>, \<open>shape\<close>: the attributes of a tensor;
  \<^item> \<open>as_graph_def\<close>: \<^verbatim>\<open>graph.as_graph_def(add_shapes=True)\<close>.
  TensorFlow adds nodes to the default graph; inside \<^verbatim>\<open>with IsolatedSession() as issn\<close>
  that graph is \<^verbatim>\<open>issn.graph\<close>, which is where the model adds them.
\<close>

type_synonym dtype = string

type_synonym shape = "nat option list option"

record ('g, 't, 'gd) engine =
  Graph :: 'g
  import_graph_def ::
    "'gd \<Rightarrow> (string \<times> 't) list option \<Rightarrow> string list \<Rightarrow> string option \<Rightarrow> 'g \<Rightarrow> exn + 'g"
  get_tensor :: "'g \<Rightarrow> string \<Rightarrow> exn + 't"
  op_name :: "'g \<Rightarrow> 't \<Rightarrow> exn + string"
  dtype :: "'t \<Rightarrow> dtype"
  shape :: "'t \<Rightarrow> shape"
  placeholder :: "dtype \<Rightarrow> shape \<Rightarrow> string \<Rightarrow> 'g \<Rightarrow> exn + 'g \<times> 't"
  identity :: "'t \<Rightarrow> string \<Rightarrow> 'g \<Rightarrow> exn + 'g \<times> 't"
  strip_and_freeze_until :: "'t list \<Rightarrow> 'g \<Rightarrow> exn + 'gd"
  as_graph_def :: "'g \<Rightarrow> 'gd"
  validated_input :: "'g \<Rightarrow> 't \<Rightarrow> exn + string"
  validated_output :: "'g \<Rightarrow> 't \<Rightarrow> exn + string"

text \<open>
  The state outside the module's objects: how many sessions were created (the next
  session takes that number), the stack of default sessions, the session Keras uses,
  the names handed to \<^verbatim>\<open>tf.import_graph_def\<close> so far (one entry per call, latest
  last), the temporary directories that exist, a serial number for the next one, and
  the directories that the system refuses to remove.
\<close>

record world =
  sessions :: nat
  default_sessions :: "nat list"
  keras_session :: nat
  import_log :: "string option list"
  dirs :: "string list"
  tmp_serial :: nat
  undeletable :: "string list"

section \<open>\<^verbatim>\<open>IsolatedSession\<close>\<close>

record 'g isolated_session =
  graph :: 'g
  sess :: nat
  keras_prev_sess :: "nat option"

definition IsolatedSession_init ::
  "('g, 't, 'gd) engine \<Rightarrow> 'g option \<Rightarrow> bool \<Rightarrow> world \<Rightarrow> 'g isolated_session \<times> world" where
  "IsolatedSession_init eng g keras w =
     (\<lparr>graph = (case g of None \<Rightarrow> Graph eng | Some g' \<Rightarrow> g'),
       sess = sessions w,
       keras_prev_sess = (if keras then Some (keras_session w) else None)\<rparr>,
      w\<lparr>sessions := Suc (sessions w)\<rparr>)"

definition IsolatedSession_enter :: "'g isolated_session \<Rightarrow> world \<Rightarrow> world" where
  "IsolatedSession_enter self w =
     (let w1 = w\<lparr>default_sessions := sess self # default_sessions w\<rparr>
      in case keras_prev_sess self of
           None \<Rightarrow> w1
         | Some prev \<Rightarrow> w1\<lparr>keras_session := sess self\<rparr>)"

definition IsolatedSession_exit :: "'g isolated_session \<Rightarrow> world \<Rightarrow> world" where
  "IsolatedSession_exit self w =
     (let w1 = (case keras_prev_sess self of
                  None \<Rightarrow> w
                | Some prev \<Rightarrow> w\<lparr>keras_session := prev\<rparr>)
      in w1\<lparr>default_sessions := tl (default_sessions w1)\<rparr>)"

text \<open>
  \<^verbatim>\<open>with IsolatedSession(keras=...) as issn: body\<close>. The object is created and
  entered, the body runs, and \<^verbatim>\<open>__exit__\<close> runs whether the body returned or raised;
  \<^verbatim>\<open>__exit__\<close> returns nothing, so an exception of the body goes on to the caller.
\<close>

definition with_IsolatedSession ::
  "('g, 't, 'gd) engine \<Rightarrow> bool \<Rightarrow> ('g isolated_session \<Rightarrow> world \<Rightarrow> (error + 'a) \<times> world)
   \<Rightarrow> world \<Rightarrow> (error + 'a) \<times> world" where
  "with_IsolatedSession eng keras body w =
     (case IsolatedSession_init eng None keras w of
        (issn, w1) \<Rightarrow>
          (case body issn (IsolatedSession_enter issn w1) of
             (r, w2) \<Rightarrow> (r, IsolatedSession_exit issn w2)))"

text \<open>
  A list comprehension \<^verbatim>\<open>[f(x) for x in xs]\<close> whose element expression can raise:
  the first exception ends it.
\<close>

fun map_result :: "('a \<Rightarrow> 'e + 'b) \<Rightarrow> 'a list \<Rightarrow> 'e + 'b list" where
  "map_result f [] = Inr []"
| "map_result f (x # xs) =
     (case f x of
        Inl e \<Rightarrow> Inl e
      | Inr y \<Rightarrow> (case map_result f xs of Inl e \<Rightarrow> Inl e | Inr ys \<Rightarrow> Inr (y # ys)))"

text \<open>
  The same, where each element expression also adds a node to the graph.
\<close>

fun build_nodes :: "('a \<Rightarrow> 'g \<Rightarrow> 'e + 'g \<times> 'b) \<Rightarrow> 'a list \<Rightarrow> 'g \<Rightarrow> 'e + 'g \<times> 'b list" where
  "build_nodes f [] g = Inr (g, [])"
| "build_nodes f (x # xs) g =
     (case f x g of
        Inl e \<Rightarrow> Inl e
      | Inr (g1, y) \<Rightarrow>
          (case build_nodes f xs g1 of Inl e \<Rightarrow> Inl e | Inr (g2, ys) \<Rightarrow> Inr (g2, y # ys)))"

definition asGraphFunction ::
  "('g, 't, 'gd) engine \<Rightarrow> 'g isolated_session \<Rightarrow> 't list \<Rightarrow> 't list \<Rightarrow> bool
   \<Rightarrow> error + 'gd graph_function" where
  "asGraphFunction eng self inputs outputs strip_and_freeze =
     (case (if strip_and_freeze then strip_and_freeze_until eng outputs (graph self)
            else Inr (as_graph_def eng (graph self))) of
        Inl e \<Rightarrow> Inl (Raised e)
      | Inr gdef \<Rightarrow>
          (case map_result (validated_input eng (graph self)) inputs of
             Inl e \<Rightarrow> Inl (Raised e)
           | Inr ins \<Rightarrow>
               (case map_result (validated_output eng (graph self)) outputs of
                  Inl e \<Rightarrow> Inl (Raised e)
                | Inr outs \<Rightarrow>
                    Inr \<lparr>graph_def = gdef, input_names = ins, output_names = outs\<rparr>)))"

text \<open>
  \<^verbatim>\<open>str.strip()\<close> removes leading and trailing whitespace. A character of the
  model is a code point below 256; of these, Python 3 counts as whitespace the tab,
  line feed, vertical tab, form feed and carriage return (9 to 13), the four
  separators 28 to 31, the space (32), the next-line control (133, U+0085) and the
  no-break space (160, U+00A0).
\<close>

definition is_space :: "char \<Rightarrow> bool" where
  "is_space c \<longleftrightarrow>
     (let n = (of_char c :: nat)
      in (9 \<le> n \<and> n \<le> 13) \<or> (28 \<le> n \<and> n \<le> 32) \<or> n = 133 \<or> n = 160)"

definition strip :: "string \<Rightarrow> string" where
  "strip s = rev (dropWhile is_space (rev (dropWhile is_space s)))"

text \<open>
  Lines 103-111: with a name that is not \<^verbatim>\<open>None\<close> and not empty once stripped,
  every declared name is looked up as \<^verbatim>\<open>name + '/' + op_name\<close>; otherwise as
  declared. The argument is the name after \<^verbatim>\<open>name = name.strip()\<close>.
\<close>

definition scoped_names :: "string option \<Rightarrow> string list \<Rightarrow> string list" where
  "scoped_names name names =
     (case name of
        None \<Rightarrow> names
      | Some n \<Rightarrow>
          if length n > 0 then map (\<lambda>op_name. n @ ''/'' @ op_name) names else names)"

text \<open>
  Lines 114-121: the import itself, logged in the world, and the two lookups.
\<close>

definition import_and_resolve ::
  "('g, 't, 'gd) engine \<Rightarrow> 'g isolated_session \<Rightarrow> 'gd graph_function
   \<Rightarrow> (string \<times> 't) list option \<Rightarrow> string option \<Rightarrow> string list \<Rightarrow> string list \<Rightarrow> world
   \<Rightarrow> (error + 'g isolated_session \<times> 't list \<times> 't list) \<times> world" where
  "import_and_resolve eng self gfn input_map name input_names' output_names' w =
     (let w' = w\<lparr>import_log := import_log w @ [name]\<rparr>
      in case import_graph_def eng (graph_def gfn) input_map (output_names gfn) name (graph self) of
           Inl e \<Rightarrow> (Inl (Raised e), w')
         | Inr g \<Rightarrow>
             (case map_result (get_tensor eng g) input_names' of
                Inl e \<Rightarrow> (Inl (Raised e), w')
              | Inr feeds \<Rightarrow>
                  (case map_result (get_tensor eng g) output_names' of
                     Inl e \<Rightarrow> (Inl (Raised e), w')
                   | Inr fetches \<Rightarrow> (Inr (self\<lparr>graph := g\<rparr>, feeds, fetches), w'))))"

text \<open>
  Line 100: \<^verbatim>\<open>set(input_map.keys()) <= set(gfn.input_names)\<close>. A dict is an
  association list with distinct keys, in insertion order.
\<close>

definition input_map_located :: "(string \<times> 't) list option \<Rightarrow> 'gd graph_function \<Rightarrow> bool" where
  "input_map_located input_map gfn =
     (case input_map of
        None \<Rightarrow> True
      | Some m \<Rightarrow> set (map fst m) \<subseteq> set (input_names gfn))"

text \<open>
  \<^verbatim>\<open>import_graph_function(gfn, input_map=None, name="GFN-IMPORT")\<close>. The extra
  keyword arguments, passed through to \<^verbatim>\<open>tf.import_graph_def\<close>, are not modelled:
  no caller in the module gives any.
\<close>

definition import_graph_function ::
  "('g, 't, 'gd) engine \<Rightarrow> 'g isolated_session \<Rightarrow> 'gd graph_function
   \<Rightarrow> (string \<times> 't) list option \<Rightarrow> string option \<Rightarrow> world
   \<Rightarrow> (error + 'g isolated_session \<times> 't list \<times> 't list) \<times> world" where
  "import_graph_function eng self gfn input_map name w =
     (if \<not> input_map_located input_map gfn
      then (Inl (AssertionError Cannot_locate_inputs), w)
      else (let name' = map_option strip name
            in import_and_resolve eng self gfn input_map name'
                 (scoped_names name' (input_names gfn))
                 (scoped_names name' (output_names gfn)) w))"

section \<open>\<^verbatim>\<open>GraphFunction.from_list\<close>\<close>

text \<open>
  Lines 212-216, the loop over
  \<^verbatim>\<open>zip(functions[:-1], functions[1:])\<close>: the assertion on the link, then the
  test on the inputs of the right-hand function \<^verbatim>\<open>gfn_out\<close>. The first failure ends
  the loop.
\<close>

fun check_links ::
  "((string option \<times> 'gd graph_function) \<times> (string option \<times> 'gd graph_function)) list
   \<Rightarrow> error option" where
  "check_links [] = None"
| "check_links (((scope_in, gfn_in), (scope_out, gfn_out)) # rest) =
     (if length (output_names gfn_in) \<noteq> length (input_names gfn_out)
      then Some (AssertionError (Incompatible_link scope_in scope_out))
      else if length (input_names gfn_out) \<noteq> 1
      then Some NotImplementedError
      else check_links rest)"

text \<open>
  Decimal digits of a number, as \<^verbatim>\<open>'{}'.format(idx)\<close> prints it.
\<close>

function show_nat :: "nat \<Rightarrow> string" where
  "show_nat n =
     (if n < 10 then [char_of (48 + n)]
      else show_nat (n div 10) @ [char_of (48 + n mod 10)])"
  by pat_completeness auto
termination
  by (relation "measure id") auto

declare show_nat.simps [simp del]

text \<open>
  \<^verbatim>\<open>dict(zip(keys, values))\<close>: pairs are inserted in order; a key seen again keeps
  its place and takes the later value.
\<close>

definition dict_zip :: "'k list \<Rightarrow> 'v list \<Rightarrow> ('k \<times> 'v) list" where
  "dict_zip ks vs = fold (\<lambda>(k, v) d. AList.update k v d) (zip ks vs) []"

text \<open>
  Lines 219-225, the body of the first \<^verbatim>\<open>with\<close> block: the first function is
  imported under the empty name, with no input map, and the type, shape and operation
  name of each of its feeds are recorded.
\<close>

definition first_input_info ::
  "('g, 't, 'gd) engine \<Rightarrow> 'gd graph_function \<Rightarrow> 'g isolated_session \<Rightarrow> world
   \<Rightarrow> (error + (dtype \<times> shape \<times> string) list) \<times> world" where
  "first_input_info eng first_gfn issn w =
     (case import_graph_function eng issn first_gfn None (Some []) w of
        (Inl e, w') \<Rightarrow> (Inl e, w')
      | (Inr (issn', feeds, fetches), w') \<Rightarrow>
          (case map_result
                  (\<lambda>tnsr. case op_name eng (graph issn') tnsr of
                             Inl e \<Rightarrow> Inl e
                           | Inr name \<Rightarrow> Inr (dtype eng tnsr, shape eng tnsr, name))
                  feeds of
             Inl e \<Rightarrow> (Inl (Raised e), w')
           | Inr info \<Rightarrow> (Inr info, w')))"

text \<open>
  Lines 233-242, the loop over \<^verbatim>\<open>enumerate(functions)\<close>: a scope that is
  \<^verbatim>\<open>None\<close> or blank becomes \<^verbatim>\<open>GFN-BLK-idx\<close>; the function is imported under
  the scope, its declared inputs mapped to the previous outputs; its fetches are the
  next previous outputs. (The call to the logger is left out.)
\<close>

definition block_scope :: "nat \<Rightarrow> string option \<Rightarrow> string" where
  "block_scope idx scope =
     (case scope of
        None \<Rightarrow> ''GFN-BLK-'' @ show_nat idx
      | Some s \<Rightarrow> if length (strip s) = 0 then ''GFN-BLK-'' @ show_nat idx else s)"

fun chain ::
  "('g, 't, 'gd) engine \<Rightarrow> nat \<Rightarrow> (string option \<times> 'gd graph_function) list
   \<Rightarrow> 'g isolated_session \<Rightarrow> 't list \<Rightarrow> world
   \<Rightarrow> (error + 'g isolated_session \<times> 't list) \<times> world" where
  "chain eng idx [] issn prev_outputs w = (Inr (issn, prev_outputs), w)"
| "chain eng idx ((scope, gfn) # rest) issn prev_outputs w =
     (let input_map = dict_zip (input_names gfn) prev_outputs
      in case import_graph_function eng issn gfn (Some input_map)
                (Some (block_scope idx scope)) w of
           (Inl e, w') \<Rightarrow> (Inl e, w')
         | (Inr (issn', feeds, fetches), w') \<Rightarrow> chain eng (Suc idx) rest issn' fetches w')"

text \<open>
  Lines 229-250, the body of the second \<^verbatim>\<open>with\<close> block: the placeholders, the
  chain, one identity node per output of the last function, named by
  \<^verbatim>\<open>functions[-1][1].output_names\<close>, and the export.
\<close>

definition build_chain ::
  "('g, 't, 'gd) engine \<Rightarrow> (string option \<times> 'gd graph_function) list
   \<Rightarrow> (dtype \<times> shape \<times> string) list \<Rightarrow> 'g isolated_session \<Rightarrow> world
   \<Rightarrow> (error + 'gd graph_function) \<times> world" where
  "build_chain eng functions info issn w =
     (case build_nodes (\<lambda>(dt, sh, name). placeholder eng dt sh name) info (graph issn) of
        Inl e \<Rightarrow> (Inl (Raised e), w)
      | Inr (g, first_inputs) \<Rightarrow>
          (case chain eng 0 functions (issn\<lparr>graph := g\<rparr>) first_inputs w of
             (Inl e, w') \<Rightarrow> (Inl e, w')
           | (Inr (issn', prev_outputs), w') \<Rightarrow>
               (let last_output_names = output_names (snd (last functions))
                in case build_nodes (\<lambda>(tnsr, name). identity eng tnsr name)
                          (zip prev_outputs last_output_names) (graph issn') of
                     Inl e \<Rightarrow> (Inl (Raised e), w')
                   | Inr (g', last_outputs) \<Rightarrow>
                       (asGraphFunction eng (issn'\<lparr>graph := g'\<rparr>) first_inputs last_outputs True,
                        w'))))"

text \<open>
  What \<^verbatim>\<open>from_list\<close> returns: line 211 returns \<^verbatim>\<open>functions[0]\<close>, an element of
  the list, which is a tuple of a scope and a graph function; line 252 returns the
  graph function exported at line 250.
\<close>

datatype 'gd from_list_value =
    Tuple_value "string option \<times> 'gd graph_function"
  | GraphFunction_value "'gd graph_function"

definition from_list ::
  "('g, 't, 'gd) engine \<Rightarrow> (string option \<times> 'gd graph_function) list \<Rightarrow> world
   \<Rightarrow> (error + 'gd from_list_value) \<times> world" where
  "from_list eng functions w =
     (if \<not> length functions \<ge> 1 then (Inl (AssertionError No_function), w)
      else if 1 = length functions then (Inr (Tuple_value (functions ! 0)), w)
      else (case check_links (zip (butlast functions) (tl functions)) of
              Some e \<Rightarrow> (Inl e, w)
            | None \<Rightarrow>
                (case with_IsolatedSession eng False
                        (first_input_info eng (snd (functions ! 0))) w of
                   (Inl e, w1) \<Rightarrow> (Inl e, w1)
                 | (Inr info, w1) \<Rightarrow>
                     (case with_IsolatedSession eng False (build_chain eng functions info) w1 of
                        (Inl e, w2) \<Rightarrow> (Inl e, w2)
                      | (Inr gfn, w2) \<Rightarrow> (Inr (GraphFunction_value gfn), w2)))))"

section \<open>\<^verbatim>\<open>GraphFunction.from_keras\<close>\<close>

text \<open>
  Keras: \<^verbatim>\<open>model.save(path, overwrite=True)\<close>, which returns nothing or raises, and
  \<^verbatim>\<open>load_model(path)\<close>, which builds the model in the graph of the current session
  and gives its \<^verbatim>\<open>inputs\<close> and \<^verbatim>\<open>outputs\<close>, or raises. The learning phase that
  \<^verbatim>\<open>K.set_learning_phase(0)\<close> sets is not part of the state of the model.
\<close>

record ('m, 'g, 't) keras =
  save :: "'m \<Rightarrow> string \<Rightarrow> exn option"
  load_model :: "string \<Rightarrow> 'g \<Rightarrow> exn + 'g \<times> 't list \<times> 't list"

datatype 'm model_or_file_path = Model 'm | File_path py_path

text \<open>
  \<^verbatim>\<open>mkdtemp(prefix)\<close> creates a directory that did not exist and returns its
  absolute path, with no trailing separator. The model numbers the directories where
  the system draws random characters.
\<close>

definition mkdtemp :: "string \<Rightarrow> world \<Rightarrow> string \<times> world" where
  "mkdtemp prefix w =
     (let d = ''/tmp/'' @ prefix @ show_nat (tmp_serial w)
      in (d, w\<lparr>dirs := d # dirs w, tmp_serial := Suc (tmp_serial w)\<rparr>))"

text \<open>
  \<^verbatim>\<open>shutil.rmtree(d, ignore_errors=True)\<close>: the directory is removed when the
  system allows it; when it does not, the failure is swallowed and the directory
  stays. Nothing is raised either way.
\<close>

definition rmtree :: "string \<Rightarrow> world \<Rightarrow> world" where
  "rmtree d w =
     (if d \<in> set (undeletable w) then w else w\<lparr>dirs := removeAll d (dirs w)\<rparr>)"

text \<open>
  \<^verbatim>\<open>Path(p).parent\<close> for a path with at least one separator: all that stands before
  the last separator.
\<close>

definition parent :: "string \<Rightarrow> string" where
  "parent p = rev (tl (dropWhile (\<lambda>c. c \<noteq> CHR ''/'') (rev p)))"

definition str_of :: "py_path \<Rightarrow> string" where
  "str_of p = (case p of Str s \<Rightarrow> s | Path_object s \<Rightarrow> s)"

text \<open>
  Lines 177-185: where the model comes from. Lines 191-194: the body of the
  \<^verbatim>\<open>with\<close> block. Lines 196-199: the removal, reached when the block has not raised.
\<close>

definition materialize ::
  "('m, 'g, 't) keras \<Rightarrow> 'm model_or_file_path \<Rightarrow> world \<Rightarrow> (error + string \<times> bool) \<times> world" where
  "materialize k model_or_file_path w =
     (case model_or_file_path of
        Model model \<Rightarrow>
          (case mkdtemp ''kera-'' w of
             (d, w1) \<Rightarrow>
               (let model_path = d @ ''/model.h5''
                in case save k model model_path of
                     Some e \<Rightarrow> (Inl (Raised e), w1)
                   | None \<Rightarrow> (Inr (model_path, True), w1)))
      | File_path p \<Rightarrow> (Inr (str_of p, False), w))"

definition load_and_export ::
  "('g, 't, 'gd) engine \<Rightarrow> ('m, 'g, 't) keras \<Rightarrow> string \<Rightarrow> 'g isolated_session \<Rightarrow> world
   \<Rightarrow> (error + 'gd graph_function) \<times> world" where
  "load_and_export eng k model_path issn w =
     (case load_model k model_path (graph issn) of
        Inl e \<Rightarrow> (Inl (Raised e), w)
      | Inr (g, inputs, outputs) \<Rightarrow>
          (asGraphFunction eng (issn\<lparr>graph := g\<rparr>) inputs outputs True, w))"

definition from_keras ::
  "('g, 't, 'gd) engine \<Rightarrow> ('m, 'g, 't) keras \<Rightarrow> 'm model_or_file_path \<Rightarrow> world
   \<Rightarrow> (error + 'gd graph_function) \<times> world" where
  "from_keras eng k model_or_file_path w =
     (case materialize k model_or_file_path w of
        (Inl e, w1) \<Rightarrow> (Inl e, w1)
      | (Inr (model_path, is_temp_model), w1) \<Rightarrow>
          (case with_IsolatedSession eng True (load_and_export eng k model_path) w1 of
             (Inl e, w2) \<Rightarrow> (Inl e, w2)
           | (Inr gfn, w2) \<Rightarrow>
               (Inr gfn, if is_temp_model then rmtree (parent model_path) w2 else w2)))"

section \<open>Collaborators for evaluation\<close>

text \<open>
  An engine on which the definitions can be run: a graph is the list of its nodes,
  a node and a tensor are a name with a type and a shape, and a graph definition is
  a list of nodes. It names nodes as TensorFlow documents it:
  \<^item> \<^verbatim>\<open>tf.import_graph_def\<close> puts every imported node under \<^verbatim>\<open>name/\<close>; a name
    that is \<^verbatim>\<open>None\<close> stands for the default \<^verbatim>\<open>import\<close>, and only the empty name
    imports the nodes under their own names;
  \<^item> a new operation (\<^verbatim>\<open>tf.placeholder\<close>, \<^verbatim>\<open>tf.identity\<close>) whose requested name
    is taken in the graph gets the first free one of \<^verbatim>\<open>name_1\<close>, \<^verbatim>\<open>name_2\<close>, ...
    (\<^verbatim>\<open>Graph.unique_name\<close>);
  \<^item> a lookup fails on a name that is not in the graph.
  An import that would repeat a node name is refused. The theorems below that are
  about every engine do not depend on this one.
\<close>

type_synonym list_node = "string \<times> dtype \<times> shape"

definition unique_name :: "list_node list \<Rightarrow> string \<Rightarrow> string" where
  "unique_name g n =
     (if n \<notin> set (map fst g) then n
      else (case find (\<lambda>c. c \<notin> set (map fst g))
                   (map (\<lambda>i. n @ ''_'' @ show_nat i) [1..<Suc (Suc (length g))]) of
              None \<Rightarrow> n
            | Some c \<Rightarrow> c))"

definition list_new_op ::
  "list_node list \<Rightarrow> string \<Rightarrow> dtype \<Rightarrow> shape \<Rightarrow> exn + list_node list \<times> list_node" where
  "list_new_op g n dt sh =
     (let t = (unique_name g n, dt, sh) in Inr (g @ [t], t))"

definition list_import ::
  "list_node list \<Rightarrow> (string \<times> list_node) list option \<Rightarrow> string list \<Rightarrow> string option
   \<Rightarrow> list_node list \<Rightarrow> exn + list_node list" where
  "list_import gdef input_map return_elements name g =
     (let pre = (case name of
                   None \<Rightarrow> ''import/''
                 | Some n \<Rightarrow> if n = [] then [] else n @ ''/'');
          new = map (\<lambda>(n, dt, sh). (pre @ n, dt, sh)) gdef
      in if list_ex (\<lambda>n. n \<in> set (map fst g)) (map fst new)
         then Inl ''name collision''
         else Inr (g @ new))"

definition list_lookup :: "list_node list \<Rightarrow> string \<Rightarrow> exn + list_node" where
  "list_lookup g n =
     (case find (\<lambda>t. fst t = n) g of
        None \<Rightarrow> Inl ''no such tensor''
      | Some t \<Rightarrow> Inr t)"

definition list_name :: "list_node list \<Rightarrow> list_node \<Rightarrow> exn + string" where
  "list_name g t = (if t \<in> set g then Inr (fst t) else Inl ''not in this graph'')"

definition list_engine :: "(list_node list, list_node, list_node list) engine" where
  "list_engine =
     \<lparr>Graph = [],
      import_graph_def = list_import,
      get_tensor = list_lookup,
      op_name = list_name,
      dtype = (\<lambda>t. fst (snd t)),
      shape = (\<lambda>t. snd (snd t)),
      placeholder = (\<lambda>dt sh n g. list_new_op g n dt sh),
      identity = (\<lambda>t n g. list_new_op g n (fst (snd t)) (snd (snd t))),
      strip_and_freeze_until = (\<lambda>outputs g. Inr g),
      as_graph_def = (\<lambda>g. g),
      validated_input = list_name,
      validated_output = list_name\<rparr>"

text \<open>
  Two Keras stand-ins over that engine: one whose \<^verbatim>\<open>load_model\<close> builds a model
  with one input and one output, and one whose \<^verbatim>\<open>load_model\<close> raises.
\<close>

definition loading_keras :: "(unit, list_node list, list_node) keras" where
  "loading_keras =
     \<lparr>save = (\<lambda>m p. None),
      load_model = (\<lambda>p g.
        Inr (g @ [(''in'', ''float32'', None), (''out'', ''float32'', None)],
             [(''in'', ''float32'', None)], [(''out'', ''float32'', None)]))\<rparr>"

definition failing_keras :: "(unit, list_node list, list_node) keras" where
  "failing_keras = \<lparr>save = (\<lambda>m p. None), load_model = (\<lambda>p g. Inl ''cannot load'')\<rparr>"

definition world0 :: world where
  "world0 = \<lparr>sessions = 0, default_sessions = [], keras_session = 0, import_log = [],
             dirs = [], tmp_serial = 0, undeletable = []\<rparr>"

text \<open>
  Graph functions to run the merge on: \<open>gfn1\<close> maps \<open>x\<close> to \<open>y1\<close>, \<open>gfn2\<close> maps
  \<open>y1\<close> to \<open>y2\<close>, \<open>gfn_fork\<close> has one input and two outputs, \<open>gfn_join\<close> has two
  inputs and one output.
\<close>

definition gfn1 :: "list_node list graph_function" where
  "gfn1 = \<lparr>graph_def = [(''x'', ''float32'', None), (''y1'', ''float32'', None)],
           input_names = [''x''], output_names = [''y1'']\<rparr>"

definition gfn2 :: "list_node list graph_function" where
  "gfn2 = \<lparr>graph_def = [(''y1'', ''float32'', None), (''y2'', ''float32'', None)],
           input_names = [''y1''], output_names = [''y2'']\<rparr>"

definition gfn_fork :: "list_node list graph_function" where
  "gfn_fork = \<lparr>graph_def = [(''x'', ''float32'', None), (''l'', ''float32'', None),
                             (''r'', ''float32'', None)],
               input_names = [''x''], output_names = [''l'', ''r'']\<rparr>"

definition gfn_join :: "list_node list graph_function" where
  "gfn_join = \<lparr>graph_def = [(''a'', ''float32'', None), (''b'', ''float32'', None),
                             (''z'', ''float32'', None)],
               input_names = [''a'', ''b''], output_names = [''z'']\<rparr>"

text \<open>
  Two graph functions whose names cross: \<open>gfn_yz\<close> maps \<open>y\<close> to \<open>z\<close> and
  \<open>gfn_zy\<close> maps \<open>z\<close> to \<open>y\<close>.
\<close>

definition gfn_yz :: "list_node list graph_function" where
  "gfn_yz = \<lparr>graph_def = [(''y'', ''float32'', None), (''z'', ''float32'', None)],
             input_names = [''y''], output_names = [''z'']\<rparr>"

definition gfn_zy :: "list_node list graph_function" where
  "gfn_zy = \<lparr>graph_def = [(''z'', ''float32'', None), (''y'', ''float32'', None)],
             input_names = [''z''], output_names = [''y'']\<rparr>"

definition session0 :: "list_node list isolated_session" where
  "session0 = \<lparr>graph = [(''x0'', ''float32'', None)], sess = 0, keras_prev_sess = None\<rparr>"

section \<open>Vocabulary of the statements\<close>

text \<open>
  The number of declared inputs and outputs of an element of the list given to
  \<^verbatim>\<open>from_list\<close>, and the errors that the checks of lines 209-216 raise.
\<close>

definition n_inputs :: "string option \<times> 'gd graph_function \<Rightarrow> nat" where
  "n_inputs f = length (input_names (snd f))"

definition n_outputs :: "string option \<times> 'gd graph_function \<Rightarrow> nat" where
  "n_outputs f = length (output_names (snd f))"

fun validation_error :: "error \<Rightarrow> bool" where
  "validation_error (AssertionError No_function) = True"
| "validation_error (AssertionError (Incompatible_link scope_in scope_out)) = True"
| "validation_error NotImplementedError = True"
| "validation_error e = False"

section \<open>Persistence: properties\<close>

lemma endswith_appended: "endswith (p @ ''.jl'') ''jl''"
  by (simp add: endswith_def)

lemma text_codec_char: "char_of (unat (of_char c :: 8 word)) = c"
proof -
  have "(of_char c :: 8 word) = of_nat (of_char c)"
    by (simp only: of_nat_of_char)
  then have "unat (of_char c :: 8 word) = (of_char c :: nat) mod 256"
    by (simp only: unat_of_nat) simp
  then show ?thesis by simp
qed

lemma text_codec_law: "FromString text_codec (SerializeToString text_codec s) = Inr s"
  by (simp add: text_codec_def comp_def text_codec_char)

text \<open>
  C9. The path normalisation of \<^verbatim>\<open>dump\<close> is a function of the path alone: it
  appends the suffix exactly when the path does not end in \<^verbatim>\<open>jl\<close>, it is idempotent,
  and dumping to a path and to its normalised form write the same file.
\<close>

theorem dump_path_idempotent:
  "dump_path (dump_path p) = dump_path p
   \<and> dump_path p = (if endswith p ''jl'' then p else p @ ''.jl'')
   \<and> dump pb g (Str (dump_path p)) fs = dump pb g (Str p) fs"
  by (simp add: dump_path_def dump_def endswith_appended)

text \<open>
  C5. For every graph function \<open>g\<close> and every path string \<open>p\<close>: \<^verbatim>\<open>dump\<close> succeeds, and
  \<^verbatim>\<open>from_file\<close> on the file it wrote (the one at the normalised path) returns a graph
  function equal to \<open>g\<close>: the same graph-definition bytes, input names and output names.
  The one thing asked of the codec is that it decodes what it encoded of \<open>g\<close>.
\<close>

theorem dump_from_file_roundtrip:
  assumes "FromString pb (SerializeToString pb (graph_def g)) = Inr (graph_def g)"
  shows "case dump pb g (Str p) fs of
           Inl e \<Rightarrow> False
         | Inr fs' \<Rightarrow>
             from_file pb (dump_path p) fs' = Inr g
             \<and> (case from_file pb (dump_path p) fs' of
                  Inl e \<Rightarrow> False
                | Inr g' \<Rightarrow>
                    SerializeToString pb (graph_def g') = SerializeToString pb (graph_def g)
                    \<and> input_names g' = input_names g
                    \<and> output_names g' = output_names g)"
  using assms by (simp add: dump_def from_file_def)

theorem dump_from_file_roundtrip_witness:
  "FromString text_codec (SerializeToString text_codec ''nodes'') = Inr ''nodes''
   \<and> (case dump text_codec
             \<lparr>graph_def = ''nodes'', input_names = [], output_names = [''y'']\<rparr>
             (Str ''const'') Map.empty of
        Inl e \<Rightarrow> False
      | Inr fs' \<Rightarrow>
          from_file text_codec ''const.jl'' fs'
            = Inr \<lparr>graph_def = ''nodes'', input_names = [], output_names = [''y'']\<rparr>)"
proof -
  have law: "FromString text_codec (SerializeToString text_codec
      (graph_def \<lparr>graph_def = ''nodes'', input_names = [], output_names = [''y'']\<rparr>))
    = Inr (graph_def \<lparr>graph_def = ''nodes'', input_names = [], output_names = [''y'']\<rparr>)"
    by (simp add: text_codec_law)
  have path: "dump_path ''const'' = ''const.jl''"
    by (simp add: dump_path_def endswith_def)
  show ?thesis
    using dump_from_file_roundtrip [OF law, of "''const''" Map.empty] path
    by (simp add: text_codec_law split: sum.splits)
qed

text \<open>
  C8. For every stored container that \<^verbatim>\<open>from_file\<close> reads: when one of the three
  fields is absent the call fails with the assertion on the fields; when the three are
  present (a byte string and two lists of names) the bytes are decoded and the result
  is a new graph function with the decoded graph definition and exactly the stored
  input and output names (or the exception of the decoder, if the bytes do not decode).
\<close>

theorem from_file_fields:
  assumes "fs fpath = Some st"
  shows "(st ''graph_def_bytes'' = None \<or> st ''inputs'' = None \<or> st ''outputs'' = None
            \<longrightarrow> from_file pb fpath fs = Inl (AssertionError Missing_fields))
       \<and> (st ''graph_def_bytes'' = Some (Bytes b) \<and> st ''inputs'' = Some (Names ins)
            \<and> st ''outputs'' = Some (Names outs)
            \<longrightarrow> from_file pb fpath fs =
                  (case FromString pb b of
                     Inl e \<Rightarrow> Inl (Raised e)
                   | Inr gdef \<Rightarrow>
                       Inr \<lparr>graph_def = gdef, input_names = ins, output_names = outs\<rparr>))"
  using assms by (auto simp: from_file_def dom_def split: sum.splits)

theorem from_file_fields_witness:
  "from_file text_codec ''f.jl''
     [''f.jl'' \<mapsto> [''graph_def_bytes'' \<mapsto> Bytes [110], ''inputs'' \<mapsto> Names [''x'']]]
     = Inl (AssertionError Missing_fields)
   \<and> from_file text_codec ''g.jl''
       [''g.jl'' \<mapsto> [''graph_def_bytes'' \<mapsto> Bytes [110], ''inputs'' \<mapsto> Names [''x''],
                    ''outputs'' \<mapsto> Names [''y'']]]
     = Inr \<lparr>graph_def = ''n'', input_names = [''x''], output_names = [''y'']\<rparr>"
proof -
  let ?st1 = "[''graph_def_bytes'' \<mapsto> Bytes [110], ''inputs'' \<mapsto> Names [''x'']]"
  let ?st2 = "[''graph_def_bytes'' \<mapsto> Bytes [110], ''inputs'' \<mapsto> Names [''x''],
               ''outputs'' \<mapsto> Names [''y'']]"
  have f1: "[''f.jl'' \<mapsto> ?st1] ''f.jl'' = Some ?st1" by simp
  have f2: "[''g.jl'' \<mapsto> ?st2] ''g.jl'' = Some ?st2" by simp
  have dec: "FromString text_codec [110] = Inr ''n''"
    by code_simp
  show ?thesis
    using from_file_fields [where fs = "[''f.jl'' \<mapsto> ?st1]" and fpath = "''f.jl''"
        and st = ?st1 and pb = text_codec]
      from_file_fields [where fs = "[''g.jl'' \<mapsto> ?st2]" and fpath = "''g.jl''"
        and st = ?st2 and pb = text_codec and b = "[110]" and ins = "[''x'']"
        and outs = "[''y'']"] f1 f2 dec
    by simp
qed

section \<open>\<^verbatim>\<open>import_graph_function\<close>: properties\<close>

lemma strip_blank:
  assumes "\<forall>c\<in>set s. is_space c"
  shows "strip s = []"
  using assms by (induction s) (auto simp: strip_def)

lemma strip_padded:
  assumes a: "\<forall>c\<in>set a. is_space c" and b: "\<forall>c\<in>set b. is_space c"
    and l: "l \<noteq> []" "\<not> is_space (hd l)" "\<not> is_space (last l)"
  shows "strip (a @ l @ b) = l"
proof -
  have front: "dropWhile is_space (a @ l @ b) = l @ b"
    using a l by (cases l) (simp_all add: dropWhile_append)
  have rear: "dropWhile is_space (rev b @ rev l) = rev l"
    using b l by (cases l rule: rev_cases) (simp_all add: dropWhile_append)
  show ?thesis
    by (simp add: strip_def front rear)
qed

text \<open>
  C7. For every import with an input map: when some key of the map is not a declared
  input name, the call fails with the assertion and the world is as before, so no
  import was attempted; when every key is a declared input name the assertion does
  not fail, and the import is attempted (it is the next entry of the log).
\<close>

theorem import_input_map_checked:
  "(\<not> set (map fst m) \<subseteq> set (input_names gfn)
      \<longrightarrow> import_graph_function eng issn gfn (Some m) name w
            = (Inl (AssertionError Cannot_locate_inputs), w))
   \<and> (set (map fst m) \<subseteq> set (input_names gfn)
      \<longrightarrow> fst (import_graph_function eng issn gfn (Some m) name w)
              \<noteq> Inl (AssertionError Cannot_locate_inputs)
          \<and> import_log (snd (import_graph_function eng issn gfn (Some m) name w))
              = import_log w @ [map_option strip name])"
  by (auto simp: import_graph_function_def input_map_located_def import_and_resolve_def Let_def
      split: sum.splits)

theorem import_input_map_checked_witness:
  "import_graph_function list_engine session0 gfn1
     (Some [(''q'', (''x0'', ''float32'', None))]) (Some ''s'') world0
     = (Inl (AssertionError Cannot_locate_inputs), world0)
   \<and> fst (import_graph_function list_engine session0 gfn1
        (Some [(''x'', (''x0'', ''float32'', None))]) (Some ''s'') world0)
     \<noteq> Inl (AssertionError Cannot_locate_inputs)
   \<and> import_log (snd (import_graph_function list_engine session0 gfn1
        (Some [(''x'', (''x0'', ''float32'', None))]) (Some ''s'') world0))
     = [Some ''s'']"
proof -
  have s: "strip ''s'' = ''s''"
    by (simp add: strip_def is_space_def)
  show ?thesis
    using import_input_map_checked [of "[(''q'', (''x0'', ''float32'', None))]" gfn1
        list_engine session0 "Some ''s''" world0]
      import_input_map_checked [of "[(''x'', (''x0'', ''float32'', None))]" gfn1
        list_engine session0 "Some ''s''" world0]
    by (simp add: gfn1_def world0_def s)
qed

text \<open>
  What lines 105-111 do with the name, for every engine. With a name that is
  \<^verbatim>\<open>None\<close>, empty or made of whitespace only, the engine is given no name or the
  empty name, and the lookups are made under the declared input and output names. A
  label that is not empty and has no whitespace at either end, padded with whitespace
  on both sides, behaves as the label alone: the import runs under the label and the
  lookups under \<^verbatim>\<open>label/name\<close>.
\<close>

lemma import_name_stripped:
  "((name = None \<or> (\<exists>s. name = Some s \<and> (\<forall>c\<in>set s. is_space c)))
      \<longrightarrow> import_graph_function eng issn gfn im name w
            = (if input_map_located im gfn
               then import_and_resolve eng issn gfn im (map_option (\<lambda>s. []) name)
                      (input_names gfn) (output_names gfn) w
               else (Inl (AssertionError Cannot_locate_inputs), w)))
   \<and> ((\<forall>c\<in>set a. is_space c) \<and> (\<forall>c\<in>set b. is_space c)
        \<and> l \<noteq> [] \<and> \<not> is_space (hd l) \<and> \<not> is_space (last l)
      \<longrightarrow> import_graph_function eng issn gfn im (Some (a @ l @ b)) w
            = import_graph_function eng issn gfn im (Some l) w
          \<and> import_graph_function eng issn gfn im (Some l) w
            = (if input_map_located im gfn
               then import_and_resolve eng issn gfn im (Some l)
                      (map (\<lambda>op_name. l @ ''/'' @ op_name) (input_names gfn))
                      (map (\<lambda>op_name. l @ ''/'' @ op_name) (output_names gfn)) w
               else (Inl (AssertionError Cannot_locate_inputs), w)))"
proof (intro conjI impI)
  assume "name = None \<or> (\<exists>s. name = Some s \<and> (\<forall>c\<in>set s. is_space c))"
  then show "import_graph_function eng issn gfn im name w
            = (if input_map_located im gfn
               then import_and_resolve eng issn gfn im (map_option (\<lambda>s. []) name)
                      (input_names gfn) (output_names gfn) w
               else (Inl (AssertionError Cannot_locate_inputs), w))"
    by (auto simp: import_graph_function_def scoped_names_def strip_blank)
next
  assume h: "(\<forall>c\<in>set a. is_space c) \<and> (\<forall>c\<in>set b. is_space c)
        \<and> l \<noteq> [] \<and> \<not> is_space (hd l) \<and> \<not> is_space (last l)"
  then have s1: "strip (a @ l @ b) = l"
    by (simp add: strip_padded)
  from h have s2: "strip l = l"
    using strip_padded [of "[]" "[]" l] by simp
  show "import_graph_function eng issn gfn im (Some (a @ l @ b)) w
            = import_graph_function eng issn gfn im (Some l) w"
    by (simp add: import_graph_function_def s1 s2)
  from h show "import_graph_function eng issn gfn im (Some l) w
            = (if input_map_located im gfn
               then import_and_resolve eng issn gfn im (Some l)
                      (map (\<lambda>op_name. l @ ''/'' @ op_name) (input_names gfn))
                      (map (\<lambda>op_name. l @ ''/'' @ op_name) (output_names gfn)) w
               else (Inl (AssertionError Cannot_locate_inputs), w))"
    by (simp add: import_graph_function_def s2 scoped_names_def)
qed

lemma import_name_stripped_runs:
  "import_graph_function list_engine session0 gfn1 None (Some ''  '') world0
     = (Inr (session0\<lparr>graph := [(''x0'', ''float32'', None), (''x'', ''float32'', None),
                                 (''y1'', ''float32'', None)]\<rparr>,
             [(''x'', ''float32'', None)], [(''y1'', ''float32'', None)]),
        world0\<lparr>import_log := [Some []]\<rparr>)
   \<and> import_graph_function list_engine session0 gfn1 None (Some '' s '') world0
     = (Inr (session0\<lparr>graph := [(''x0'', ''float32'', None), (''s/x'', ''float32'', None),
                                 (''s/y1'', ''float32'', None)]\<rparr>,
             [(''s/x'', ''float32'', None)], [(''s/y1'', ''float32'', None)]),
        world0\<lparr>import_log := [Some ''s'']\<rparr>)"
proof -
  have sp: "is_space CHR '' ''" "\<not> is_space CHR ''s''"
    by (simp_all add: is_space_def)
  have blank: "Some ''  '' = None \<or> (\<exists>s. Some ''  '' = Some s \<and> (\<forall>c\<in>set s. is_space c))"
    using sp by simp
  have padded: "(\<forall>c\<in>set '' ''. is_space c) \<and> (\<forall>c\<in>set '' ''. is_space c)
        \<and> ''s'' \<noteq> [] \<and> \<not> is_space (hd ''s'') \<and> \<not> is_space (last ''s'')"
    using sp by simp
  show ?thesis
    using import_name_stripped [of "Some ''  ''" list_engine session0 gfn1 None world0
        "'' ''" "'' ''" "''s''"] blank padded
    by (simp add: input_map_located_def import_and_resolve_def list_engine_def list_import_def
        list_lookup_def gfn1_def session0_def world0_def)
qed

text \<open>
  C10. The claim has a name of \<^verbatim>\<open>None\<close> treated as absent: no scope applied, and
  the handles returned under the declared names. Line 117 hands \<^verbatim>\<open>None\<close> on to
  \<^verbatim>\<open>tf.import_graph_def\<close>, which then imports under its default scope: the nodes
  are \<^verbatim>\<open>import/x\<close> and \<^verbatim>\<open>import/y1\<close>, the lookups of lines 119-120 ask for
  \<^verbatim>\<open>x\<close> and \<^verbatim>\<open>y1\<close>, and the call raises instead of returning handles. A name
  made of whitespace (here the no-break space) is stripped to the empty name, and that
  import is unscoped and returns the handles.
\<close>

theorem import_None_lookup_fails:
  "import_graph_def list_engine (graph_def gfn1) None (output_names gfn1) None (graph session0)
     = Inr [(''x0'', ''float32'', None), (''import/x'', ''float32'', None),
            (''import/y1'', ''float32'', None)]
   \<and> import_graph_function list_engine session0 gfn1 None None world0
     = (Inl (Raised ''no such tensor''), world0\<lparr>import_log := [None]\<rparr>)
   \<and> import_graph_function list_engine session0 gfn1 None (Some [char_of (160 :: nat)]) world0
     = (Inr (session0\<lparr>graph := [(''x0'', ''float32'', None), (''x'', ''float32'', None),
                                 (''y1'', ''float32'', None)]\<rparr>,
             [(''x'', ''float32'', None)], [(''y1'', ''float32'', None)]),
        world0\<lparr>import_log := [Some []]\<rparr>)"
  by code_simp

section \<open>\<^verbatim>\<open>from_list\<close>: properties\<close>

text \<open>
  C1. On a list of one element, \<^verbatim>\<open>from_list\<close> returns line 211's
  \<^verbatim>\<open>functions[0]\<close>: the pair of the label and the graph function, not the graph
  function.
\<close>

theorem from_list_single:
  "from_list eng [(label, g)] w = (Inr (Tuple_value (label, g)), w)
   \<and> from_list eng [(label, g)] w \<noteq> (Inr (GraphFunction_value g), w)"
  by (simp add: from_list_def)

lemma check_links_unsupported:
  "check_links ps = Some NotImplementedError \<longleftrightarrow>
     (\<exists>k<length ps. n_inputs (snd (ps ! k)) \<noteq> 1
        \<and> (\<forall>j\<le>k. n_outputs (fst (ps ! j)) = n_inputs (snd (ps ! j))))"
proof (induction ps)
  case Nil
  show ?case by simp
next
  case (Cons p ps)
  obtain si gi so go where p: "p = ((si, gi), (so, go))"
    by (metis surj_pair)
  show ?case
  proof (cases "length (output_names gi) = length (input_names go)")
    case False
    then have "\<not> (\<exists>k<length (p # ps). n_inputs (snd ((p # ps) ! k)) \<noteq> 1
        \<and> (\<forall>j\<le>k. n_outputs (fst ((p # ps) ! j)) = n_inputs (snd ((p # ps) ! j))))"
      by (auto simp: p n_inputs_def n_outputs_def)
    with False show ?thesis by (simp add: p)
  next
    case match: True
    show ?thesis
    proof (cases "length (input_names go) = 1")
      case False
      with match have "n_inputs (snd ((p # ps) ! 0)) \<noteq> 1
          \<and> (\<forall>j\<le>0. n_outputs (fst ((p # ps) ! j)) = n_inputs (snd ((p # ps) ! j)))"
        by (simp add: p n_inputs_def n_outputs_def)
      then have "\<exists>k<length (p # ps). n_inputs (snd ((p # ps) ! k)) \<noteq> 1
          \<and> (\<forall>j\<le>k. n_outputs (fst ((p # ps) ! j)) = n_inputs (snd ((p # ps) ! j)))"
        by (intro exI [of _ 0]) simp
      with match False show ?thesis by (simp add: p)
    next
      case one: True
      have "(\<exists>k<length (p # ps). n_inputs (snd ((p # ps) ! k)) \<noteq> 1
          \<and> (\<forall>j\<le>k. n_outputs (fst ((p # ps) ! j)) = n_inputs (snd ((p # ps) ! j))))
        \<longleftrightarrow> (\<exists>k<length ps. n_inputs (snd (ps ! k)) \<noteq> 1
          \<and> (\<forall>j\<le>k. n_outputs (fst (ps ! j)) = n_inputs (snd (ps ! j))))"
        (is "?L \<longleftrightarrow> ?R")
      proof
        assume ?L
        then obtain k where k: "k < length (p # ps)" "n_inputs (snd ((p # ps) ! k)) \<noteq> 1"
          "\<forall>j\<le>k. n_outputs (fst ((p # ps) ! j)) = n_inputs (snd ((p # ps) ! j))"
          by blast
        have "k \<noteq> 0"
        proof
          assume "k = 0"
          with k(2) one show False by (simp add: p n_inputs_def)
        qed
        then obtain k' where k': "k = Suc k'"
          by (cases k) auto
        have "\<forall>j\<le>k'. n_outputs (fst (ps ! j)) = n_inputs (snd (ps ! j))"
        proof (intro allI impI)
          fix j assume "j \<le> k'"
          then have "Suc j \<le> k" by (simp add: k')
          with k(3) have "n_outputs (fst ((p # ps) ! Suc j)) = n_inputs (snd ((p # ps) ! Suc j))"
            by blast
          then show "n_outputs (fst (ps ! j)) = n_inputs (snd (ps ! j))" by simp
        qed
        with k(1,2) k' show ?R by auto
      next
        assume ?R
        then obtain k where k: "k < length ps" "n_inputs (snd (ps ! k)) \<noteq> 1"
          "\<forall>j\<le>k. n_outputs (fst (ps ! j)) = n_inputs (snd (ps ! j))"
          by blast
        have "\<forall>j\<le>Suc k. n_outputs (fst ((p # ps) ! j)) = n_inputs (snd ((p # ps) ! j))"
        proof (intro allI impI)
          fix j assume j: "j \<le> Suc k"
          show "n_outputs (fst ((p # ps) ! j)) = n_inputs (snd ((p # ps) ! j))"
          proof (cases j)
            case 0
            with match show ?thesis by (simp add: p n_inputs_def n_outputs_def)
          next
            case (Suc j')
            with j k(3) show ?thesis by simp
          qed
        qed
        with k(1,2) show ?L
          by (intro exI [of _ "Suc k"]) simp
      qed
      with match one Cons.IH show ?thesis by (simp add: p)
    qed
  qed
qed

lemma check_links_failure:
  "check_links ps \<noteq> None \<longleftrightarrow>
     (\<exists>k<length ps. n_outputs (fst (ps ! k)) \<noteq> n_inputs (snd (ps ! k))
        \<or> n_inputs (snd (ps ! k)) \<noteq> 1)"
proof (induction ps)
  case Nil
  show ?case by simp
next
  case (Cons p ps)
  obtain si gi so go where p: "p = ((si, gi), (so, go))"
    by (metis surj_pair)
  have split: "(\<exists>k<length (p # ps). n_outputs (fst ((p # ps) ! k)) \<noteq> n_inputs (snd ((p # ps) ! k))
        \<or> n_inputs (snd ((p # ps) ! k)) \<noteq> 1)
     \<longleftrightarrow> (n_outputs (fst p) \<noteq> n_inputs (snd p) \<or> n_inputs (snd p) \<noteq> 1)
        \<or> (\<exists>k<length ps. n_outputs (fst (ps ! k)) \<noteq> n_inputs (snd (ps ! k))
        \<or> n_inputs (snd (ps ! k)) \<noteq> 1)"
    by (simp add: Ex_less_Suc2)
  show ?case
    unfolding split using Cons.IH by (auto simp: p n_inputs_def n_outputs_def)
qed

lemma check_links_kind:
  "check_links ps = Some e \<Longrightarrow>
     validation_error e
     \<and> ((\<forall>k<length ps. n_inputs (snd (ps ! k)) = 1) \<longrightarrow>
          (\<exists>a b. e = AssertionError (Incompatible_link a b)))
     \<and> ((\<forall>k<length ps. n_outputs (fst (ps ! k)) = n_inputs (snd (ps ! k))) \<longrightarrow>
          e = NotImplementedError)"
proof (induction ps)
  case Nil
  then show ?case by simp
next
  case (Cons p ps)
  obtain si gi so go where p: "p = ((si, gi), (so, go))"
    by (metis surj_pair)
  have all: "\<And>P. (\<forall>k<length (p # ps). P ((p # ps) ! k)) \<longleftrightarrow> P p \<and> (\<forall>k<length ps. P (ps ! k))"
    by (simp add: All_less_Suc2)
  from Cons show ?case
    unfolding all [of "\<lambda>q. n_inputs (snd q) = 1"]
      all [of "\<lambda>q. n_outputs (fst q) = n_inputs (snd q)"]
    by (auto simp: p n_inputs_def n_outputs_def split: if_splits)
qed

lemma links_nth:
  "k < length fs - 1 \<Longrightarrow> zip (butlast fs) (tl fs) ! k = (fs ! k, fs ! Suc k)"
  by (simp add: nth_butlast nth_tl)


lemma import_graph_function_raises:
  "import_graph_function eng issn gfn im name w = (Inl e, w') \<Longrightarrow> e \<noteq> NotImplementedError"
  by (auto simp: import_graph_function_def import_and_resolve_def Let_def
      split: if_splits sum.splits)

lemma chain_raises:
  "chain eng idx fs issn prev w = (Inl e, w') \<Longrightarrow> e \<noteq> NotImplementedError"
proof (induction fs arbitrary: idx issn prev w)
  case Nil
  then show ?case by simp
next
  case (Cons f fs)
  obtain scope gfn where f: "f = (scope, gfn)"
    by (cases f)
  show ?case
  proof (cases "import_graph_function eng issn gfn
      (Some (dict_zip (input_names gfn) prev)) (Some (block_scope idx scope)) w")
    case (Pair r w1)
    show ?thesis
    proof (cases r)
      case (Inl e1)
      with Pair Cons.prems have "e = e1"
        by (simp add: f)
      with Pair Inl show ?thesis
        using import_graph_function_raises by blast
    next
      case (Inr v)
      obtain issn' feeds fetches where v: "v = (issn', feeds, fetches)"
        by (cases v)
      from Pair Inr v Cons.prems have "chain eng (Suc idx) fs issn' fetches w1 = (Inl e, w')"
        by (simp add: f)
      then show ?thesis by (rule Cons.IH)
    qed
  qed
qed

lemma asGraphFunction_raises:
  "asGraphFunction eng issn ins outs sf = Inl e \<Longrightarrow> e \<noteq> NotImplementedError"
  by (auto simp: asGraphFunction_def split: sum.splits if_splits)

lemma first_input_info_raises:
  "first_input_info eng gfn issn w = (Inl e, w') \<Longrightarrow> e \<noteq> NotImplementedError"
  by (auto simp: first_input_info_def split: prod.splits sum.splits
      dest: import_graph_function_raises)

lemma build_chain_raises:
  "build_chain eng fs info issn w = (Inl e, w') \<Longrightarrow> e \<noteq> NotImplementedError"
  by (auto simp: build_chain_def Let_def split: prod.splits sum.splits
      dest: chain_raises asGraphFunction_raises)

lemma with_IsolatedSession_raises:
  assumes "\<And>issn w0 e w1. body issn w0 = (Inl e, w1) \<Longrightarrow> e \<noteq> NotImplementedError"
    and "with_IsolatedSession eng k body w = (Inl e, w')"
  shows "e \<noteq> NotImplementedError"
  using assms by (auto simp: with_IsolatedSession_def split: prod.splits)

lemma from_list_rejected:
  "2 \<le> length fs \<Longrightarrow> check_links (zip (butlast fs) (tl fs)) = Some e \<Longrightarrow>
     from_list eng fs w = (Inl e, w)"
  by (simp add: from_list_def)

lemma from_list_accepted:
  assumes "2 \<le> length fs" and "check_links (zip (butlast fs) (tl fs)) = None"
  shows "fst (from_list eng fs w) \<noteq> Inl NotImplementedError"
proof
  assume bad: "fst (from_list eng fs w) = Inl NotImplementedError"
  obtain r1 w1 where p1:
    "with_IsolatedSession eng False (first_input_info eng (snd (fs ! 0))) w = (r1, w1)"
    by (cases "with_IsolatedSession eng False (first_input_info eng (snd (fs ! 0))) w")
  show False
  proof (cases r1)
    case (Inl e1)
    with assms p1 have "fst (from_list eng fs w) = Inl e1"
      by (simp add: from_list_def)
    with bad have "e1 = NotImplementedError" by simp
    moreover from p1 Inl have "e1 \<noteq> NotImplementedError"
      using with_IsolatedSession_raises [of "first_input_info eng (snd (fs ! 0))"]
        first_input_info_raises by blast
    ultimately show False by simp
  next
    case (Inr info)
    obtain r2 w2 where p2:
      "with_IsolatedSession eng False (build_chain eng fs info) w1 = (r2, w2)"
      by (cases "with_IsolatedSession eng False (build_chain eng fs info) w1")
    show False
    proof (cases r2)
      case (Inl e2)
      with assms p1 Inr p2 have "fst (from_list eng fs w) = Inl e2"
        by (simp add: from_list_def)
      with bad have "e2 = NotImplementedError" by simp
      moreover from p2 Inl have "e2 \<noteq> NotImplementedError"
        using with_IsolatedSession_raises [of "build_chain eng fs info"]
          build_chain_raises by blast
      ultimately show False by simp
    next
      case (Inr gfn)
      with assms p1 \<open>r1 = Inr info\<close> p2 have "fst (from_list eng fs w) = Inr (GraphFunction_value gfn)"
        by (simp add: from_list_def)
      with bad show False by simp
    qed
  qed
qed

text \<open>
  C3, as the code has it. For every list of two or more elements, \<^verbatim>\<open>from_list\<close>
  fails with the not-implemented error exactly when some element other than the first
  declares a number of inputs other than one and every link up to and including the
  one into that element joins as many outputs as inputs. The test of line 215 reads
  the right-hand function of each link, so the first element may declare several
  inputs, and the last one may not.
\<close>

theorem from_list_unsupported_topology:
  assumes "2 \<le> length functions"
  shows "fst (from_list eng functions w) = Inl NotImplementedError \<longleftrightarrow>
           (\<exists>k. Suc k < length functions \<and> n_inputs (functions ! Suc k) \<noteq> 1
              \<and> (\<forall>j\<le>k. n_outputs (functions ! j) = n_inputs (functions ! Suc j)))"
proof -
  let ?ps = "zip (butlast functions) (tl functions)"
  have len: "length ?ps = length functions - 1"
    by simp
  have idx: "(\<exists>k<length ?ps. n_inputs (snd (?ps ! k)) \<noteq> 1
        \<and> (\<forall>j\<le>k. n_outputs (fst (?ps ! j)) = n_inputs (snd (?ps ! j))))
      \<longleftrightarrow> (\<exists>k. Suc k < length functions \<and> n_inputs (functions ! Suc k) \<noteq> 1
              \<and> (\<forall>j\<le>k. n_outputs (functions ! j) = n_inputs (functions ! Suc j)))"
    (is "?A \<longleftrightarrow> ?B")
  proof
    assume ?A
    then obtain k where k: "k < length ?ps" "n_inputs (snd (?ps ! k)) \<noteq> 1"
      "\<forall>j\<le>k. n_outputs (fst (?ps ! j)) = n_inputs (snd (?ps ! j))"
      by blast
    from k(1) have kl: "k < length functions - 1" by simp
    have "\<forall>j\<le>k. n_outputs (functions ! j) = n_inputs (functions ! Suc j)"
    proof (intro allI impI)
      fix j assume "j \<le> k"
      with kl have "j < length functions - 1" by simp
      then have "?ps ! j = (functions ! j, functions ! Suc j)"
        by (rule links_nth)
      moreover from \<open>j \<le> k\<close> k(3)
      have "n_outputs (fst (?ps ! j)) = n_inputs (snd (?ps ! j))"
        by blast
      ultimately show "n_outputs (functions ! j) = n_inputs (functions ! Suc j)"
        by (simp only: fst_conv snd_conv)
    qed
    moreover from k(2) links_nth [OF kl] have "n_inputs (functions ! Suc k) \<noteq> 1"
      by (metis snd_conv)
    moreover from kl have "Suc k < length functions" by simp
    ultimately show ?B by blast
  next
    assume ?B
    then obtain k where k: "Suc k < length functions" "n_inputs (functions ! Suc k) \<noteq> 1"
      "\<forall>j\<le>k. n_outputs (functions ! j) = n_inputs (functions ! Suc j)"
      by blast
    from k(1) have kl: "k < length functions - 1" by simp
    have "\<forall>j\<le>k. n_outputs (fst (?ps ! j)) = n_inputs (snd (?ps ! j))"
    proof (intro allI impI)
      fix j assume "j \<le> k"
      with kl have "j < length functions - 1" by simp
      then have "?ps ! j = (functions ! j, functions ! Suc j)"
        by (rule links_nth)
      moreover from \<open>j \<le> k\<close> k(3)
      have "n_outputs (functions ! j) = n_inputs (functions ! Suc j)"
        by blast
      ultimately show "n_outputs (fst (?ps ! j)) = n_inputs (snd (?ps ! j))"
        by (simp only: fst_conv snd_conv)
    qed
    moreover from k(2) links_nth [OF kl] have "n_inputs (snd (?ps ! k)) \<noteq> 1"
      by (metis snd_conv)
    moreover from kl have "k < length ?ps" by simp
    ultimately show ?A by blast
  qed
  show ?thesis
  proof (cases "check_links ?ps")
    case None
    then have "check_links ?ps \<noteq> Some NotImplementedError"
      by simp
    then have "\<not> ?A"
      unfolding check_links_unsupported [of ?ps] .
    moreover from assms None have "fst (from_list eng functions w) \<noteq> Inl NotImplementedError"
      by (rule from_list_accepted)
    ultimately show ?thesis using idx by blast
  next
    case (Some e)
    with assms have "from_list eng functions w = (Inl e, w)"
      by (rule from_list_rejected)
    then have "fst (from_list eng functions w) = Inl NotImplementedError \<longleftrightarrow> e = NotImplementedError"
      by simp
    moreover have "e = NotImplementedError \<longleftrightarrow> check_links ?ps = Some NotImplementedError"
      using Some by simp
    then have "e = NotImplementedError \<longleftrightarrow> ?A"
      unfolding check_links_unsupported [of ?ps] .
    ultimately show ?thesis using idx by blast
  qed
qed


theorem from_list_unsupported_topology_witness:
  "2 \<le> length [(Some ''a'', gfn_fork), (Some ''b'', gfn_join)]
   \<and> fst (from_list list_engine [(Some ''a'', gfn_fork), (Some ''b'', gfn_join)] world0)
       = Inl NotImplementedError
   \<and> n_inputs (Some ''b'', gfn_join) = 2
   \<and> 2 \<le> length [(Some ''a'', gfn_join), (Some ''b'', gfn2)]
   \<and> fst (from_list list_engine [(Some ''a'', gfn_join), (Some ''b'', gfn2)] world0)
       \<noteq> Inl NotImplementedError
   \<and> n_inputs (Some ''a'', gfn_join) = 2"
proof -
  have l1: "2 \<le> length [(Some ''a'', gfn_fork), (Some ''b'', gfn_join)]"
    and l2: "2 \<le> length [(Some ''a'', gfn_join), (Some ''b'', gfn2)]"
    by simp_all
  have sizes: "n_inputs (Some ''b'', gfn_join) = 2" "n_inputs (Some ''a'', gfn_join) = 2"
    "n_outputs (Some ''a'', gfn_fork) = 2" "n_inputs (Some ''b'', gfn2) = 1"
    by (simp_all add: n_inputs_def n_outputs_def gfn_join_def gfn_fork_def gfn2_def)
  have "fst (from_list list_engine [(Some ''a'', gfn_fork), (Some ''b'', gfn_join)] world0)
       = Inl NotImplementedError"
    unfolding from_list_unsupported_topology [OF l1]
    by (intro exI [of _ 0]) (simp add: sizes)
  moreover
  have "fst (from_list list_engine [(Some ''a'', gfn_join), (Some ''b'', gfn2)] world0)
       \<noteq> Inl NotImplementedError"
    unfolding from_list_unsupported_topology [OF l2]
    by (simp add: sizes less_Suc_eq)
  ultimately show ?thesis using sizes by simp
qed

text \<open>
  The claim C3 as written fails: in the list below the only element that is not the
  last declares exactly one input, the link joins two outputs to two inputs, and the
  merge is rejected because the last element declares two inputs.
\<close>

theorem terminal_multi_input_rejected:
  "fst (from_list list_engine [(Some ''a'', gfn_fork), (Some ''b'', gfn_join)] world0)
     = Inl NotImplementedError
   \<and> n_inputs (Some ''a'', gfn_fork) = 1
   \<and> n_outputs (Some ''a'', gfn_fork) = n_inputs (Some ''b'', gfn_join)
   \<and> n_inputs (Some ''b'', gfn_join) = 2"
  by (simp add: from_list_def n_inputs_def n_outputs_def gfn_fork_def gfn_join_def)

text \<open>
  C4. For every list that is empty, or has a link joining different numbers of outputs
  and inputs, or has an element after the first (every intermediary one is such) with
  a number of inputs other than one: \<^verbatim>\<open>from_list\<close> fails with an error of the
  checks of lines 209-216, and the world is as before the call: no session was created
  and no import attempted. The error is the one of the first check that fails: the
  assertion on the list when it is empty, the assertion on a link when every element
  after the first has one input, the not-implemented error when every link matches.
\<close>

theorem from_list_validates_first:
  assumes "functions = []
    \<or> (\<exists>i. Suc i < length functions \<and> n_outputs (functions ! i) \<noteq> n_inputs (functions ! Suc i))
    \<or> (\<exists>k. 0 < k \<and> k < length functions \<and> n_inputs (functions ! k) \<noteq> 1)"
  shows "\<exists>e. from_list eng functions w = (Inl e, w) \<and> validation_error e
    \<and> (functions = [] \<longrightarrow> e = AssertionError No_function)
    \<and> (functions \<noteq> [] \<and> (\<forall>k. 0 < k \<and> k < length functions \<longrightarrow> n_inputs (functions ! k) = 1)
        \<longrightarrow> (\<exists>a b. e = AssertionError (Incompatible_link a b)))
    \<and> (functions \<noteq> []
        \<and> (\<forall>i. Suc i < length functions \<longrightarrow> n_outputs (functions ! i) = n_inputs (functions ! Suc i))
        \<longrightarrow> e = NotImplementedError)"
proof (cases "functions = []")
  case True
  then show ?thesis by (simp add: from_list_def)
next
  case False
  let ?ps = "zip (butlast functions) (tl functions)"
  have nth: "\<And>k. k < length ?ps \<Longrightarrow> ?ps ! k = (functions ! k, functions ! Suc k)"
    using links_nth [where fs = "functions"] by simp
  from assms False consider
    (mismatch) i where "Suc i < length functions"
      "n_outputs (functions ! i) \<noteq> n_inputs (functions ! Suc i)"
    | (multi) k where "0 < k" "k < length functions" "n_inputs (functions ! k) \<noteq> 1"
    by blast
  note violation = this
  from violation have long: "2 \<le> length functions"
    by cases simp_all
  from violation
  have bad: "\<exists>k<length ?ps. n_outputs (fst (?ps ! k)) \<noteq> n_inputs (snd (?ps ! k))
        \<or> n_inputs (snd (?ps ! k)) \<noteq> 1"
  proof cases
    case mismatch
    then have i: "i < length ?ps" by simp
    from nth [OF i] mismatch(2)
    have "n_outputs (fst (?ps ! i)) \<noteq> n_inputs (snd (?ps ! i))"
      by (simp only: fst_conv snd_conv not_False_eq_True)
    with i show ?thesis
      by blast
  next
    case multi
    then obtain k' where k': "k = Suc k'"
      by (cases k) auto
    with multi have i: "k' < length ?ps" by simp
    from nth [OF i] multi(3) k'
    have "n_inputs (snd (?ps ! k')) \<noteq> 1"
      by (simp only: fst_conv snd_conv not_False_eq_True)
    with i show ?thesis
      by blast
  qed
  from bad have "check_links ?ps \<noteq> None"
    unfolding check_links_failure [of ?ps] .
  then obtain e where e: "check_links ?ps = Some e"
    by blast
  with long have res: "from_list eng functions w = (Inl e, w)"
    by (rule from_list_rejected)
  note kind = check_links_kind [OF e]
  have single: "\<forall>k<length ?ps. n_inputs (snd (?ps ! k)) = 1"
    if "\<forall>k. 0 < k \<and> k < length functions \<longrightarrow> n_inputs (functions ! k) = 1"
  proof (intro allI impI)
    fix k assume k: "k < length ?ps"
    then have "0 < Suc k \<and> Suc k < length functions" by simp
    with that have "n_inputs (functions ! Suc k) = 1" by blast
    with nth [OF k] show "n_inputs (snd (?ps ! k)) = 1"
      by (simp only: snd_conv)
  qed
  have matched: "\<forall>k<length ?ps. n_outputs (fst (?ps ! k)) = n_inputs (snd (?ps ! k))"
    if "\<forall>i. Suc i < length functions \<longrightarrow> n_outputs (functions ! i) = n_inputs (functions ! Suc i)"
  proof (intro allI impI)
    fix k assume k: "k < length ?ps"
    then have "Suc k < length functions" by simp
    with that have "n_outputs (functions ! k) = n_inputs (functions ! Suc k)" by blast
    with nth [OF k] show "n_outputs (fst (?ps ! k)) = n_inputs (snd (?ps ! k))"
      by (simp only: fst_conv snd_conv)
  qed
  from res kind single matched False show ?thesis
    by blast
qed

theorem from_list_validates_first_witness:
  "from_list list_engine [] world0 = (Inl (AssertionError No_function), world0)
   \<and> from_list list_engine [(Some ''a'', gfn1), (Some ''b'', gfn_join)] world0
     = (Inl (AssertionError (Incompatible_link (Some ''a'') (Some ''b''))), world0)
   \<and> from_list list_engine [(Some ''a'', gfn_fork), (None, gfn_join), (Some ''c'', gfn2)] world0
     = (Inl NotImplementedError, world0)"
proof -
  let ?f2 = "[(Some ''a'', gfn1), (Some ''b'', gfn_join)]"
  let ?f3 = "[(Some ''a'', gfn_fork), (None, gfn_join), (Some ''c'', gfn2)]"
  have h1: "([] :: (string option \<times> list_node list graph_function) list) = []
    \<or> (\<exists>i. Suc i < length ([] :: (string option \<times> list_node list graph_function) list)
          \<and> n_outputs ([] ! i :: string option \<times> list_node list graph_function) \<noteq> n_inputs ([] ! Suc i :: string option \<times> list_node list graph_function))
    \<or> (\<exists>k. 0 < k \<and> k < length ([] :: (string option \<times> list_node list graph_function) list)
          \<and> n_inputs ([] ! k :: string option \<times> list_node list graph_function) \<noteq> 1)"
    by simp
  have "Suc 0 < length ?f2 \<and> n_outputs (?f2 ! 0) \<noteq> n_inputs (?f2 ! Suc 0)"
    by (simp add: n_inputs_def n_outputs_def gfn1_def gfn_join_def)
  then have h2: "?f2 = []
    \<or> (\<exists>i. Suc i < length ?f2 \<and> n_outputs (?f2 ! i) \<noteq> n_inputs (?f2 ! Suc i))
    \<or> (\<exists>k. 0 < k \<and> k < length ?f2 \<and> n_inputs (?f2 ! k) \<noteq> 1)"
    by blast
  have "0 < Suc 0 \<and> Suc 0 < length ?f3 \<and> n_inputs (?f3 ! Suc 0) \<noteq> 1"
    by (simp add: n_inputs_def gfn_join_def)
  then have h3: "?f3 = []
    \<or> (\<exists>i. Suc i < length ?f3 \<and> n_outputs (?f3 ! i) \<noteq> n_inputs (?f3 ! Suc i))
    \<or> (\<exists>k. 0 < k \<and> k < length ?f3 \<and> n_inputs (?f3 ! k) \<noteq> 1)"
    by blast
  show ?thesis
    using from_list_validates_first [OF h1, of list_engine world0]
      from_list_validates_first [OF h2, of list_engine world0]
      from_list_validates_first [OF h3, of list_engine world0]
    by (simp add: from_list_def n_inputs_def n_outputs_def gfn1_def gfn2_def gfn_fork_def
        gfn_join_def)
qed

text \<open>
  C6. The claim has the output names of every merge equal to the declared output names
  of the last function. The names are requested from \<^verbatim>\<open>tf.identity\<close> at line 248
  and read back by the export at line 250, so they are the requested ones only where
  the graph has them free. In the first run below the last function declares the
  output \<^verbatim>\<open>y\<close>, which is also the input of the first function and so the name of
  the placeholder made at line 229: the identity node becomes \<^verbatim>\<open>y_1\<close>, and that is
  the output name of the merged function. In the second run no name is taken and the
  output name is the declared one.
\<close>

theorem from_list_renames_taken_output:
  "from_list list_engine [(Some ''a'', gfn_yz), (Some ''b'', gfn_zy)] world0
     = (Inr (GraphFunction_value
          \<lparr>graph_def = [(''y'', ''float32'', None), (''a/y'', ''float32'', None),
                        (''a/z'', ''float32'', None), (''b/z'', ''float32'', None),
                        (''b/y'', ''float32'', None), (''y_1'', ''float32'', None)],
           input_names = [''y''], output_names = [''y_1'']\<rparr>),
        world0\<lparr>sessions := 2, import_log := [Some [], Some ''a'', Some ''b'']\<rparr>)
   \<and> output_names gfn_zy = [''y'']
   \<and> from_list list_engine [(Some ''a'', gfn1), (None, gfn2)] world0
     = (Inr (GraphFunction_value
          \<lparr>graph_def = [(''x'', ''float32'', None), (''a/x'', ''float32'', None),
                        (''a/y1'', ''float32'', None), (''GFN-BLK-1/y1'', ''float32'', None),
                        (''GFN-BLK-1/y2'', ''float32'', None), (''y2'', ''float32'', None)],
           input_names = [''x''], output_names = [''y2'']\<rparr>),
        world0\<lparr>sessions := 2, import_log := [Some [], Some ''a'', Some ''GFN-BLK-1'']\<rparr>)
   \<and> output_names gfn2 = [''y2'']"
  by code_simp

section \<open>\<^verbatim>\<open>from_keras\<close>: properties\<close>

lemma with_IsolatedSession_dirs:
  assumes "\<And>issn w0 r w1. body issn w0 = (r, w1) \<Longrightarrow> dirs w1 = dirs w0"
    and "with_IsolatedSession eng k body w = (r, w')"
  shows "dirs w' = dirs w"
proof -
  obtain issn w1 where i: "IsolatedSession_init eng None k w = (issn, w1)"
    by (cases "IsolatedSession_init eng None k w")
  obtain r2 w2 where b: "body issn (IsolatedSession_enter issn w1) = (r2, w2)"
    by (cases "body issn (IsolatedSession_enter issn w1)")
  from i have "dirs w1 = dirs w"
    by (auto simp: IsolatedSession_init_def)
  moreover have "dirs (IsolatedSession_enter issn w1) = dirs w1"
    by (simp add: IsolatedSession_enter_def Let_def split: option.splits)
  moreover from b assms(1) have "dirs w2 = dirs (IsolatedSession_enter issn w1)"
    by blast
  moreover have "dirs (IsolatedSession_exit issn w2) = dirs w2"
    by (simp add: IsolatedSession_exit_def Let_def split: option.splits)
  moreover from assms(2) i b have "w' = IsolatedSession_exit issn w2"
    by (simp add: with_IsolatedSession_def)
  ultimately show ?thesis by simp
qed

lemma load_and_export_world:
  "load_and_export eng k p issn w = (r, w') \<Longrightarrow> w' = w"
  by (auto simp: load_and_export_def split: sum.splits prod.splits)

lemma from_keras_raise_keeps_dir:
  assumes "from_keras eng k (Model m) w = (Inl e, w')"
  shows "dirs w' = fst (mkdtemp ''kera-'' w) # dirs w"
proof -
  let ?d = "fst (mkdtemp ''kera-'' w)"
  let ?w1 = "snd (mkdtemp ''kera-'' w)"
  have d1: "dirs ?w1 = ?d # dirs w"
    by (simp add: mkdtemp_def Let_def)
  show ?thesis
  proof (cases "save k m (?d @ ''/model.h5'')")
    case (Some e1)
    with assms have "w' = ?w1"
      by (auto simp: from_keras_def materialize_def Let_def case_prod_beta)
    with d1 show ?thesis by simp
  next
    case None
    then have mat: "materialize k (Model m) w = (Inr (?d @ ''/model.h5'', True), ?w1)"
      by (simp add: materialize_def Let_def case_prod_beta)
    obtain r2 w2 where blk: "with_IsolatedSession eng True
        (load_and_export eng k (?d @ ''/model.h5'')) ?w1 = (r2, w2)"
      by (cases "with_IsolatedSession eng True (load_and_export eng k (?d @ ''/model.h5'')) ?w1")
    have d2: "dirs w2 = dirs ?w1"
      using blk
      by (rule with_IsolatedSession_dirs [rotated]) (auto dest: load_and_export_world)
    show ?thesis
    proof (cases r2)
      case (Inl e2)
      with assms mat blk have "w' = w2"
        by (simp add: from_keras_def)
      with d1 d2 show ?thesis by simp
    next
      case (Inr gfn)
      with assms mat blk show ?thesis
        by (simp add: from_keras_def)
    qed
  qed
qed

text \<open>
  C2. The claim has the temporary directory removed on every exit of a call with an
  in-memory model. The removal of lines 196-197 stands after the \<^verbatim>\<open>with\<close> block and
  is reached only when nothing raised (the lemma above: after any exit by exception
  the directory is still there). In the first run below \<^verbatim>\<open>load_model\<close> raises, the
  call fails and \<^verbatim>\<open>/tmp/kera-0\<close> remains; in the second run the call returns and the
  directory is gone.
\<close>

theorem from_keras_leaves_tmp_dir_on_failure:
  "from_keras list_engine failing_keras (Model ()) world0
     = (Inl (Raised ''cannot load''),
        world0\<lparr>sessions := 1, dirs := [''/tmp/kera-0''], tmp_serial := 1\<rparr>)
   \<and> from_keras list_engine loading_keras (Model ()) world0
     = (Inr \<lparr>graph_def = [(''in'', ''float32'', None), (''out'', ''float32'', None)],
             input_names = [''in''], output_names = [''out'']\<rparr>,
        world0\<lparr>sessions := 1, dirs := [], tmp_serial := 1\<rparr>)"
  by code_simp

end
